theory Spec2Isabelle
  imports Complex_Main
begin

section \<open>The whiteboard controller of \<^verbatim>\<open>src/js/app.js\<close>\<close>

text \<open>
  The class \<^verbatim>\<open>Whiteboard\<close> is an event-driven controller over a 2D canvas. Its
  handlers are embedded as functions from the state before the handler to the state
  after it. The state holds the fields of the object together with the parts of the
  canvas, of its 2D context and of the document that the handlers read or write.
\<close>

subsection \<open>The drawing surface\<close>

text \<open>
  Coordinates are JavaScript numbers and need not be whole (the origin of the canvas in
  the viewport often is not); they are rationals here, with exact arithmetic.
\<close>

type_synonym point = "rat \<times> rat"

text \<open>A CSS font: size in pixels and family, as in \<^verbatim>\<open>10px Arial\<close>.\<close>

datatype font = Font int string

text \<open>
  The bitmap of the canvas is kept as the log of the painting calls made since it was
  last blank, so that the empty log is the blank (fully transparent) bitmap and equal
  logs are equal bitmaps:
  \<^item> \<open>StrokeOp style width path\<close>: \<^verbatim>\<open>ctx.stroke()\<close> of the current path with the
    current \<^verbatim>\<open>strokeStyle\<close> and \<^verbatim>\<open>lineWidth\<close>;
  \<^item> \<open>TextOp text x y font style\<close>: \<^verbatim>\<open>ctx.fillText(text, x, y)\<close> with the current
    \<^verbatim>\<open>font\<close> and \<^verbatim>\<open>fillStyle\<close>;
  \<^item> \<open>ImageOp w h log\<close>: \<^verbatim>\<open>ctx.drawImage(img, 0, 0)\<close> of a decoded image of
    \<open>w\<close> by \<open>h\<close> pixels whose content is \<open>log\<close>.
\<close>

datatype paint =
    StrokeOp string int "point list list"
  | TextOp string rat rat font string
  | ImageOp nat nat "paint list"

text \<open>
  A snapshot is what \<^verbatim>\<open>canvas.toDataURL()\<close> returns: a lossless encoding of the
  whole bitmap, that is its width, its height and its content.
\<close>

type_synonym snapshot = "nat \<times> nat \<times> paint list"

text \<open>The result of \<^verbatim>\<open>canvas.getBoundingClientRect()\<close>, as far as the handlers read it.\<close>

record rect =
  rect_left :: rat
  rect_top :: rat

text \<open>
  The text overlay: the \<^verbatim>\<open>input\<close> element created by \<^verbatim>\<open>addTextInput\<close>, with the
  style properties that the code sets, its \<^verbatim>\<open>value\<close>, and whether it has the focus.
\<close>

record overlay =
  ov_left :: rat
  ov_top :: rat
  ov_color :: string
  ov_font :: font
  ov_value :: string
  ov_focused :: bool

text \<open>
  The state. \<open>canvas_width\<close>, \<open>canvas_height\<close> and \<open>pixels\<close> are the canvas;
  \<open>strokeStyle\<close>, \<open>lineWidth\<close>, \<open>fillStyle\<close>, \<open>ctx_font\<close> and \<open>path\<close> are the 2D
  context (the current path is a list of subpaths); \<open>isDrawing\<close>, \<open>currentTool\<close>,
  \<open>history\<close>, \<open>redoHistory\<close> and \<open>textInput\<close> are the fields of the object. The arrays
  grow at the end: \<^verbatim>\<open>push\<close> appends and \<^verbatim>\<open>pop\<close> removes the last element.
  \<open>textInput\<close> is \<open>None\<close> for \<^verbatim>\<open>null\<close>; the code appends the element to the document
  when it assigns the field and removes it when it resets the field, so \<open>Some\<close> is also
  "the overlay is in the user interface".
  \<open>loading\<close> holds the images created by \<^verbatim>\<open>redrawFromData\<close> whose \<^verbatim>\<open>onload\<close> has
  not run yet, in the order of the requests.
\<close>

record whiteboard =
  canvas_width :: nat
  canvas_height :: nat
  pixels :: "paint list"
  strokeStyle :: string
  lineWidth :: int
  fillStyle :: string
  ctx_font :: font
  path :: "point list list"
  isDrawing :: bool
  currentTool :: string
  history :: "snapshot list"
  redoHistory :: "snapshot list"
  textInput :: "overlay option"
  loading :: "snapshot list"

subsection \<open>Canvas primitives\<close>

definition toDataURL :: "whiteboard \<Rightarrow> snapshot" where
  "toDataURL s = (canvas_width s, canvas_height s, pixels s)"

definition beginPath :: "whiteboard \<Rightarrow> whiteboard" where
  "beginPath s = s\<lparr>path := []\<rparr>"

definition moveTo :: "point \<Rightarrow> whiteboard \<Rightarrow> whiteboard" where
  "moveTo p s = s\<lparr>path := path s @ [[p]]\<rparr>"

text \<open>
  \<^verbatim>\<open>lineTo\<close> on a path without subpaths only creates the subpath of its point;
  otherwise it extends the last subpath.
\<close>

definition lineTo :: "point \<Rightarrow> whiteboard \<Rightarrow> whiteboard" where
  "lineTo p s =
     s\<lparr>path := (if path s = [] then [[p]]
                 else butlast (path s) @ [last (path s) @ [p]])\<rparr>"

definition stroke :: "whiteboard \<Rightarrow> whiteboard" where
  "stroke s = s\<lparr>pixels := pixels s @ [StrokeOp (strokeStyle s) (lineWidth s) (path s)]\<rparr>"

definition fillText :: "string \<Rightarrow> rat \<Rightarrow> rat \<Rightarrow> whiteboard \<Rightarrow> whiteboard" where
  "fillText txt x y s =
     s\<lparr>pixels := pixels s @ [TextOp txt x y (ctx_font s) (fillStyle s)]\<rparr>"

text \<open>\<^verbatim>\<open>ctx.clearRect(0, 0, canvas.width, canvas.height)\<close>: the whole bitmap becomes blank.\<close>

definition clearRect :: "whiteboard \<Rightarrow> whiteboard" where
  "clearRect s = s\<lparr>pixels := []\<rparr>"

text \<open>
  \<^verbatim>\<open>ctx.drawImage(img, 0, 0)\<close>: an image of the size of the canvas drawn onto a blank
  bitmap gives the content of the image; in every other case the image is painted over
  what is there, clipped to the canvas.
\<close>

definition drawImage :: "snapshot \<Rightarrow> whiteboard \<Rightarrow> whiteboard" where
  "drawImage img s =
     (case img of (w, h, ps) \<Rightarrow>
        if pixels s = [] \<and> w = canvas_width s \<and> h = canvas_height s
        then s\<lparr>pixels := ps\<rparr>
        else s\<lparr>pixels := pixels s @ [ImageOp w h ps]\<rparr>)"

subsection \<open>History\<close>

text \<open>
  \<^verbatim>\<open>
  saveState() {
      this.history.push(this.canvas.toDataURL());
      this.redoHistory = [];
  }
  \<close>
\<close>

definition saveState :: "whiteboard \<Rightarrow> whiteboard" where
  "saveState s = s\<lparr>history := history s @ [toDataURL s], redoHistory := []\<rparr>"

text \<open>
  \<^verbatim>\<open>
  redrawFromData(dataUrl) {
      const img = new Image();
      img.src = dataUrl;
      img.onload = () => {
          this.ctx.clearRect(0, 0, this.canvas.width, this.canvas.height);
          this.ctx.drawImage(img, 0, 0);
      };
  }
  \<close>
  The call only starts the decoding; the canvas changes when the \<^verbatim>\<open>onload\<close> of the
  image runs, in a later turn of the event loop. \<open>onload i\<close> is that callback for the
  image at position \<open>i\<close> of \<open>loading\<close>; nothing in the code orders the callbacks of
  different images.
\<close>

definition redrawFromData :: "snapshot \<Rightarrow> whiteboard \<Rightarrow> whiteboard" where
  "redrawFromData dataUrl s = s\<lparr>loading := loading s @ [dataUrl]\<rparr>"

definition onload :: "nat \<Rightarrow> whiteboard \<Rightarrow> whiteboard" where
  "onload i s =
     (if i < length (loading s)
      then drawImage (loading s ! i)
             (clearRect (s\<lparr>loading := take i (loading s) @ drop (Suc i) (loading s)\<rparr>))
      else s)"

text \<open>All pending images finish loading, in the order in which they were requested.\<close>

definition settle :: "whiteboard \<Rightarrow> whiteboard" where
  "settle s = fold (\<lambda>_. onload 0) (loading s) s"

text \<open>
  \<^verbatim>\<open>
  undo() {
      if (this.history.length > 0) {
          this.redoHistory.push(this.canvas.toDataURL());
          this.redrawFromData(this.history.pop());
      }
  }
  redo() {
      if (this.redoHistory.length > 0) {
          this.history.push(this.canvas.toDataURL());
          this.redrawFromData(this.redoHistory.pop());
      }
  }
  \<close>
\<close>

definition undo :: "whiteboard \<Rightarrow> whiteboard" where
  "undo s =
     (if length (history s) > 0
      then redrawFromData (last (history s))
             (s\<lparr>redoHistory := redoHistory s @ [toDataURL s],
                history := butlast (history s)\<rparr>)
      else s)"

definition redo :: "whiteboard \<Rightarrow> whiteboard" where
  "redo s =
     (if length (redoHistory s) > 0
      then redrawFromData (last (redoHistory s))
             (s\<lparr>history := history s @ [toDataURL s],
                redoHistory := butlast (redoHistory s)\<rparr>)
      else s)"

text \<open>
  \<^verbatim>\<open>
  clearCanvas() {
      if (confirm('Are you sure you want to clear the whiteboard?')) {
          this.ctx.clearRect(0, 0, this.canvas.width, this.canvas.height);
          this.saveState();
      }
  }
  \<close>
  The answer of the user to \<^verbatim>\<open>confirm\<close> is the first argument.
\<close>

definition clearCanvas :: "bool \<Rightarrow> whiteboard \<Rightarrow> whiteboard" where
  "clearCanvas confirmed s = (if confirmed then saveState (clearRect s) else s)"

subsection \<open>The text tool\<close>

text \<open>
  \<^verbatim>\<open>parseInt\<close> of a length such as \<^verbatim>\<open>49.5px\<close>: the digits before the decimal point,
  that is the number truncated towards zero (for a number that JavaScript prints
  without an exponent).
\<close>

definition parseInt_px :: "rat \<Rightarrow> int" where
  "parseInt_px q = (if 0 \<le> q then \<lfloor>q\<rfloor> else \<lceil>q\<rceil>)"

text \<open>
  A method either returns or throws; in both cases it leaves a state behind.
\<close>

datatype error = NotFoundError

datatype outcome = Returns whiteboard | Throws error whiteboard

fun state_of :: "outcome \<Rightarrow> whiteboard" where
  "state_of (Returns s) = s"
| "state_of (Throws e s) = s"

text \<open>The focus leaves the overlay, if there is one.\<close>

definition blurred :: "whiteboard \<Rightarrow> whiteboard" where
  "blurred s =
     (case textInput s of
        None \<Rightarrow> s
      | Some ov \<Rightarrow> s\<lparr>textInput := Some (ov\<lparr>ov_focused := False\<rparr>)\<rparr>)"

text \<open>
  \<^verbatim>\<open>
  commitText() {
      if (this.textInput && this.textInput.value) {
          const rect = this.canvas.getBoundingClientRect();
          const x = parseInt(this.textInput.style.left) - rect.left;
          const y = parseInt(this.textInput.style.top) - rect.top;
          this.ctx.font = this.textInput.style.font;
          this.ctx.fillStyle = this.textInput.style.color;
          this.ctx.fillText(this.textInput.value, x, y);
          this.saveState();
      }
      if (this.textInput) {
          this.textInput.remove();
          this.textInput = null;
      }
  }
  \<close>
  A string is truthy exactly when it is not empty.

  \<^verbatim>\<open>remove()\<close> of an element that has the focus takes the focus away first, and that
  dispatches \<^verbatim>\<open>blur\<close> to the element while it is still in the document. The \<^verbatim>\<open>blur\<close>
  listener of the overlay is \<^verbatim>\<open>commitText\<close> itself: the nested run finds the field
  still set, paints and saves once more if there is content, removes the overlay and
  resets the field. The interrupted \<^verbatim>\<open>remove()\<close> then finds its element gone and throws
  \<^verbatim>\<open>NotFoundError\<close>, so the outer run ends there. When the overlay does not have the
  focus (as in the run started by a \<^verbatim>\<open>blur\<close>), \<^verbatim>\<open>remove()\<close> just removes it.
\<close>

function commitText :: "rect \<Rightarrow> whiteboard \<Rightarrow> outcome" where
  "commitText r s =
     (let s1 = (case textInput s of
                  None \<Rightarrow> s
                | Some ov \<Rightarrow>
                    if ov_value ov \<noteq> []
                    then saveState
                           (fillText (ov_value ov)
                              (of_int (parseInt_px (ov_left ov)) - rect_left r)
                              (of_int (parseInt_px (ov_top ov)) - rect_top r)
                              (s\<lparr>ctx_font := ov_font ov, fillStyle := ov_color ov\<rparr>))
                    else s)
      in case textInput s1 of
           None \<Rightarrow> Returns s1
         | Some ov \<Rightarrow>
             if ov_focused ov
             then Throws NotFoundError (state_of (commitText r (blurred s1)))
             else Returns (s1\<lparr>textInput := None\<rparr>))"
  by pat_completeness auto
termination
  by (relation "measure (\<lambda>(r, s). case textInput s of
                                      None \<Rightarrow> 0
                                    | Some ov \<Rightarrow> if ov_focused ov then 1 else 0)")
     (auto simp: blurred_def saveState_def fillText_def split: option.splits if_splits)

declare commitText.simps [simp del]

text \<open>
  \<^verbatim>\<open>
  addTextInput(x, y) {
      if (this.textInput) {
          this.commitText();
      }
      this.textInput = document.createElement('input');
      ...
      this.textInput.style.left = x + 'px';
      this.textInput.style.top = y + 'px';
      ...
      this.textInput.style.color = this.ctx.strokeStyle;
      this.textInput.style.font = `${this.ctx.lineWidth * 5}px Arial`;
      document.body.appendChild(this.textInput);
      this.textInput.focus();
      this.textInput.addEventListener('blur', this.commitText.bind(this));
      this.textInput.addEventListener('keydown', (e) => {
          if (e.key === 'Enter') {
              this.commitText();
          }
      });
  }
  \<close>
  When \<^verbatim>\<open>commitText\<close> throws, the rest of the method does not run.
\<close>

definition addTextInput :: "rect \<Rightarrow> rat \<Rightarrow> rat \<Rightarrow> whiteboard \<Rightarrow> outcome" where
  "addTextInput r x y s =
     (case (if textInput s \<noteq> None then commitText r s else Returns s) of
        Throws e s1 \<Rightarrow> Throws e s1
      | Returns s1 \<Rightarrow>
          Returns
            (s1\<lparr>textInput :=
                  Some \<lparr>ov_left = x, ov_top = y, ov_color = strokeStyle s1,
                        ov_font = Font (lineWidth s1 * 5) ''Arial'', ov_value = [],
                        ov_focused = True\<rparr>\<rparr>))"

text \<open>
  The events of the overlay. An exception that escapes a listener ends the listener and
  is reported; the state stays as the listener left it.
  \<^item> \<open>on_blur\<close>: the overlay loses the focus (the user clicks or tabs away) and its
    \<^verbatim>\<open>blur\<close> listener runs;
  \<^item> \<open>on_keydown\<close>: the \<^verbatim>\<open>keydown\<close> listener, given the \<^verbatim>\<open>key\<close> of the event;
  \<^item> \<open>on_input\<close>: the user edits the content.
\<close>

definition on_blur :: "rect \<Rightarrow> whiteboard \<Rightarrow> whiteboard" where
  "on_blur r s = state_of (commitText r (blurred s))"

definition on_keydown :: "rect \<Rightarrow> string \<Rightarrow> whiteboard \<Rightarrow> whiteboard" where
  "on_keydown r k s = (if k = ''Enter'' then state_of (commitText r s) else s)"

definition on_input :: "string \<Rightarrow> whiteboard \<Rightarrow> whiteboard" where
  "on_input v s =
     (case textInput s of
        None \<Rightarrow> s
      | Some ov \<Rightarrow> s\<lparr>textInput := Some (ov\<lparr>ov_value := v\<rparr>)\<rparr>)"

subsection \<open>Pointer input\<close>

text \<open>
  \<^verbatim>\<open>
  startDrawing(e) {
      this.isDrawing = true;
      const rect = this.canvas.getBoundingClientRect();
      const x = e.clientX - rect.left;
      const y = e.clientY - rect.top;
      if (this.currentTool === 'text') {
          this.addTextInput(x, y);
          return;
      }
      this.ctx.beginPath();
      this.ctx.moveTo(x, y);
  }
  \<close>
  The event is given by its \<^verbatim>\<open>clientX\<close> and \<^verbatim>\<open>clientY\<close>. The method is a listener:
  when \<^verbatim>\<open>addTextInput\<close> throws, it ends with the state reached.
\<close>

definition startDrawing :: "rect \<Rightarrow> point \<Rightarrow> whiteboard \<Rightarrow> whiteboard" where
  "startDrawing r e s =
     (let s1 = s\<lparr>isDrawing := True\<rparr>;
          x = fst e - rect_left r;
          y = snd e - rect_top r
      in if currentTool s1 = ''text''
         then state_of (addTextInput r x y s1)
         else moveTo (x, y) (beginPath s1))"

text \<open>
  \<^verbatim>\<open>
  draw(e) {
      if (!this.isDrawing) return;
      const rect = this.canvas.getBoundingClientRect();
      const x = e.clientX - rect.left;
      const y = e.clientY - rect.top;
      if (this.currentTool === 'eraser') {
          this.ctx.strokeStyle = '#f0f0f0';
      }
      this.ctx.lineTo(x, y);
      this.ctx.stroke();
  }
  \<close>
\<close>

definition draw :: "rect \<Rightarrow> point \<Rightarrow> whiteboard \<Rightarrow> whiteboard" where
  "draw r e s =
     (if \<not> isDrawing s then s
      else
        let x = fst e - rect_left r;
            y = snd e - rect_top r;
            s1 = (if currentTool s = ''eraser'' then s\<lparr>strokeStyle := ''#f0f0f0''\<rparr> else s)
        in stroke (lineTo (x, y) s1))"

text \<open>
  \<^verbatim>\<open>
  stopDrawing() {
      if (this.isDrawing) {
          this.isDrawing = false;
          this.saveState();
      }
  }
  \<close>
\<close>

definition stopDrawing :: "whiteboard \<Rightarrow> whiteboard" where
  "stopDrawing s = (if isDrawing s then saveState (s\<lparr>isDrawing := False\<rparr>) else s)"

subsection \<open>The control panel and the constructor\<close>

text \<open>
  The listeners installed by \<^verbatim>\<open>setupTools\<close>: a click on a tool button stores its id,
  the colour picker writes \<^verbatim>\<open>ctx.strokeStyle\<close>, the width selector \<^verbatim>\<open>ctx.lineWidth\<close>.
  A colour input always yields a valid colour; the context ignores a width that is not
  positive.
\<close>

definition selectTool :: "string \<Rightarrow> whiteboard \<Rightarrow> whiteboard" where
  "selectTool tool s = s\<lparr>currentTool := tool\<rparr>"

definition colorChange :: "string \<Rightarrow> whiteboard \<Rightarrow> whiteboard" where
  "colorChange v s = s\<lparr>strokeStyle := v\<rparr>"

definition widthChange :: "int \<Rightarrow> whiteboard \<Rightarrow> whiteboard" where
  "widthChange v s = (if 0 < v then s\<lparr>lineWidth := v\<rparr> else s)"

text \<open>
  \<^verbatim>\<open>
  const resizeCanvas = () => {
      const rect = this.canvas.getBoundingClientRect();
      this.canvas.width = rect.width;
      this.canvas.height = rect.height;
      this.redrawFromHistory();
  };
  redrawFromHistory() {
      if (this.history.length > 0) {
          this.redrawFromData(this.history[this.history.length - 1]);
      }
  }
  \<close>
  Assigning the width or the height of a canvas blanks its bitmap and resets its context
  to the default attributes and an empty path.
\<close>

definition redrawFromHistory :: "whiteboard \<Rightarrow> whiteboard" where
  "redrawFromHistory s =
     (if length (history s) > 0 then redrawFromData (last (history s)) s else s)"

definition resizeCanvas :: "nat \<Rightarrow> nat \<Rightarrow> whiteboard \<Rightarrow> whiteboard" where
  "resizeCanvas w h s =
     redrawFromHistory
       (s\<lparr>canvas_width := w, canvas_height := h, pixels := [],
          strokeStyle := ''#000000'', lineWidth := 1, fillStyle := ''#000000'',
          ctx_font := Font 10 ''sans-serif'', path := []\<rparr>)"

text \<open>
  The state after \<^verbatim>\<open>new Whiteboard()\<close> on a canvas laid out at \<open>w\<close> by \<open>h\<close> pixels:
  the fields as the constructor assigns them, a fresh 2D context with its default
  attributes, and a blank bitmap (\<^verbatim>\<open>resizeCanvas\<close> sets the size and finds the history
  empty). The touch listeners of \<^verbatim>\<open>setupEventListeners\<close> dispatch mouse events to the
  canvas and so run the handlers above.
\<close>

definition constructor :: "nat \<Rightarrow> nat \<Rightarrow> whiteboard" where
  "constructor w h =
     \<lparr>canvas_width = w, canvas_height = h, pixels = [],
      strokeStyle = ''#000000'', lineWidth = 1, fillStyle = ''#000000'',
      ctx_font = Font 10 ''sans-serif'', path = [],
      isDrawing = False, currentTool = ''pencil'',
      history = [], redoHistory = [], textInput = None, loading = []\<rparr>"

text \<open>
  A completed pointer gesture: \<^verbatim>\<open>mousedown\<close> at \<open>p\<close>, one \<^verbatim>\<open>mousemove\<close> for each
  point of \<open>ps\<close>, then \<^verbatim>\<open>mouseup\<close> (or \<^verbatim>\<open>mouseout\<close>: both run \<^verbatim>\<open>stopDrawing\<close>).
\<close>

definition gesture :: "rect \<Rightarrow> point \<Rightarrow> point list \<Rightarrow> whiteboard \<Rightarrow> whiteboard" where
  "gesture r p ps s = stopDrawing (fold (draw r) ps (startDrawing r p s))"

text \<open>A stroke with a chosen tool: a click on the tool button, then the gesture.\<close>

definition stroke_with :: "rect \<Rightarrow> string \<times> point \<times> point list \<Rightarrow> whiteboard \<Rightarrow> whiteboard" where
  "stroke_with r g s =
     (case g of (tool, p, ps) \<Rightarrow> gesture r p ps (selectTool tool s))"

subsection \<open>Auxiliary definitions\<close>

text \<open>
  The first block of \<^verbatim>\<open>commitText\<close> for an overlay with content: the text is painted
  and the bitmap saved.
\<close>

definition painted :: "rect \<Rightarrow> overlay \<Rightarrow> whiteboard \<Rightarrow> whiteboard" where
  "painted r ov s =
     saveState
       (fillText (ov_value ov)
          (of_int (parseInt_px (ov_left ov)) - rect_left r)
          (of_int (parseInt_px (ov_top ov)) - rect_top r)
          (s\<lparr>ctx_font := ov_font ov, fillStyle := ov_color ov\<rparr>))"

text \<open>No overlay with typed content is open.\<close>

definition no_text :: "whiteboard \<Rightarrow> bool" where
  "no_text s = (case textInput s of None \<Rightarrow> True | Some ov \<Rightarrow> ov_value ov = [])"

text \<open>
  Example states. The canvas lies at \<open>(8, 40)\<close> in the viewport and is 300 by 200 pixels.
  \<^item> \<open>s_one\<close>: width 2 chosen, then one pencil stroke from \<open>(10, 10)\<close> to \<open>(50, 50)\<close>
    (canvas coordinates);
  \<^item> \<open>s_two\<close>: a second pencil stroke from \<open>(100, 100)\<close> to \<open>(140, 100)\<close>;
  \<^item> \<open>s_mid\<close>: then a click on undo, and its image loaded;
  \<^item> \<open>s_text\<close>: then red chosen, the text tool chosen, a pointer-down at \<open>(50, 60)\<close>
    and \<^verbatim>\<open>Hi\<close> typed into the overlay;
  \<^item> \<open>s_blank\<close>: on a new whiteboard, the text tool chosen and a pointer-down at
    \<open>(50, 60)\<close>;
  \<^item> \<open>s_erased\<close>: on a new whiteboard, red chosen, then one eraser stroke.
\<close>

definition r0 :: rect where
  "r0 = \<lparr>rect_left = 8, rect_top = 40\<rparr>"

definition s_one :: whiteboard where
  "s_one = stroke_with r0 (''pencil'', (18, 50), [(58, 90)]) (widthChange 2 (constructor 300 200))"

definition s_two :: whiteboard where
  "s_two = stroke_with r0 (''pencil'', (108, 140), [(148, 140)]) s_one"

definition s_mid :: whiteboard where
  "s_mid = onload 0 (undo s_two)"

definition s_text :: whiteboard where
  "s_text =
     on_input ''Hi''
       (startDrawing r0 (58, 100) (selectTool ''text'' (colorChange ''#ff0000'' s_mid)))"

definition s_blank :: whiteboard where
  "s_blank = startDrawing r0 (58, 100) (selectTool ''text'' (constructor 300 200))"

definition s_erased :: whiteboard where
  "s_erased =
     stroke_with r0 (''eraser'', (18, 50), [(58, 90)])
       (colorChange ''#ff0000'' (constructor 300 200))"

section \<open>Properties\<close>

lemmas canvas_defs = toDataURL_def beginPath_def moveTo_def lineTo_def stroke_def
  fillText_def clearRect_def drawImage_def

lemmas history_defs = saveState_def redrawFromData_def onload_def undo_def redo_def
  clearCanvas_def

lemmas input_defs = commitText.simps blurred_def parseInt_px_def addTextInput_def
  on_blur_def on_keydown_def on_input_def startDrawing_def draw_def stopDrawing_def
  selectTool_def colorChange_def widthChange_def gesture_def stroke_with_def

lemmas example_defs = r0_def s_one_def s_two_def s_mid_def s_text_def s_blank_def
  s_erased_def constructor_def

subsection \<open>The constructor\<close>

lemma constructor_resizes:
  "resizeCanvas w h (constructor w0 h0) = constructor w h"
  by (simp add: resizeCanvas_def redrawFromHistory_def constructor_def)

subsection \<open>What the pointer handlers leave alone\<close>

lemma draw_frame:
  "history (draw r e s) = history s"
  "redoHistory (draw r e s) = redoHistory s"
  "textInput (draw r e s) = textInput s"
  "isDrawing (draw r e s) = isDrawing s"
  by (simp_all add: draw_def stroke_def lineTo_def Let_def)

lemma fold_draw_frame:
  "history (fold (draw r) ps s) = history s
   \<and> redoHistory (fold (draw r) ps s) = redoHistory s
   \<and> textInput (fold (draw r) ps s) = textInput s
   \<and> isDrawing (fold (draw r) ps s) = isDrawing s"
  by (induction ps arbitrary: s) (simp_all add: draw_frame)

lemma painted_frame:
  "isDrawing (painted r ov s) = isDrawing s"
  "textInput (painted r ov s) = textInput s"
  "redoHistory (painted r ov s) = []"
  "history (painted r ov s) = history s @ [toDataURL (painted r ov s)]"
  "pixels (painted r ov s) =
     pixels s @ [TextOp (ov_value ov) (of_int (parseInt_px (ov_left ov)) - rect_left r)
                   (of_int (parseInt_px (ov_top ov)) - rect_top r) (ov_font ov) (ov_color ov)]"
  "canvas_width (painted r ov s) = canvas_width s"
  "canvas_height (painted r ov s) = canvas_height s"
  by (simp_all add: painted_def saveState_def fillText_def toDataURL_def)

lemma painted_unfocused: "painted r (ov\<lparr>ov_focused := b\<rparr>) s = painted r ov s"
  by (simp add: painted_def)

lemma commitText_none: "textInput s = None \<Longrightarrow> commitText r s = Returns s"
  by (subst commitText.simps) simp

lemma commitText_blank_unfocused:
  assumes "textInput s = Some ov" and "ov_value ov = []" and "\<not> ov_focused ov"
  shows "commitText r s = Returns (s\<lparr>textInput := None\<rparr>)"
  using assms by (subst commitText.simps) simp

lemma commitText_filled_unfocused:
  assumes "textInput s = Some ov" and "ov_value ov \<noteq> []" and "\<not> ov_focused ov"
  shows "commitText r s = Returns ((painted r ov s)\<lparr>textInput := None\<rparr>)"
  using assms by (subst commitText.simps) (simp add: painted_def saveState_def fillText_def)

lemma commitText_blank_focused:
  assumes "textInput s = Some ov" and "ov_value ov = []" and "ov_focused ov"
  shows "commitText r s = Throws NotFoundError (s\<lparr>textInput := None\<rparr>)"
proof -
  let ?b = "blurred s"
  have b: "textInput ?b = Some (ov\<lparr>ov_focused := False\<rparr>)"
    using assms(1) by (simp add: blurred_def)
  have "commitText r ?b = Returns (?b\<lparr>textInput := None\<rparr>)"
    using commitText_blank_unfocused [OF b] assms(2) by simp
  moreover have "?b\<lparr>textInput := None\<rparr> = s\<lparr>textInput := None\<rparr>"
    using assms(1) by (simp add: blurred_def)
  ultimately show ?thesis
    using assms by (subst commitText.simps) simp
qed

lemma commitText_filled_focused:
  assumes "textInput s = Some ov" and "ov_value ov \<noteq> []" and "ov_focused ov"
  shows "commitText r s =
           Throws NotFoundError ((painted r ov (painted r ov s))\<lparr>textInput := None\<rparr>)"
proof -
  let ?p = "painted r ov s"
  let ?b = "blurred ?p"
  have b: "textInput ?b = Some (ov\<lparr>ov_focused := False\<rparr>)"
    using assms(1) by (simp add: blurred_def painted_frame)
  have "commitText r ?b =
          Returns ((painted r (ov\<lparr>ov_focused := False\<rparr>) ?b)\<lparr>textInput := None\<rparr>)"
    using commitText_filled_unfocused [OF b] assms(2) by simp
  moreover have "(painted r ov ?b)\<lparr>textInput := None\<rparr> = (painted r ov ?p)\<lparr>textInput := None\<rparr>"
    using assms(1)
    by (simp add: blurred_def painted_frame painted_def saveState_def fillText_def toDataURL_def)
  ultimately have inner: "state_of (commitText r ?b) = (painted r ov ?p)\<lparr>textInput := None\<rparr>"
    by (simp add: painted_unfocused)
  have "commitText r s = Throws NotFoundError (state_of (commitText r ?b))"
    using assms
    by (subst commitText.simps) (simp add: painted_def saveState_def fillText_def)
  then show ?thesis by (simp add: inner)
qed

text \<open>The state that \<^verbatim>\<open>commitText\<close> leaves behind, in each of its five cases.\<close>

lemma commitText_state:
  "state_of (commitText r s) =
     (case textInput s of
        None \<Rightarrow> s
      | Some ov \<Rightarrow>
          if ov_value ov = [] then s\<lparr>textInput := None\<rparr>
          else if ov_focused ov then (painted r ov (painted r ov s))\<lparr>textInput := None\<rparr>
          else (painted r ov s)\<lparr>textInput := None\<rparr>)"
proof (cases "textInput s")
  case None
  then show ?thesis by (simp add: commitText_none)
next
  case (Some ov)
  then show ?thesis
    by (cases "ov_value ov = []"; cases "ov_focused ov")
       (simp_all add: commitText_blank_unfocused commitText_blank_focused
          commitText_filled_unfocused commitText_filled_focused)
qed

text \<open>
  With a focused overlay open, \<^verbatim>\<open>addTextInput\<close> ends where its \<^verbatim>\<open>commitText\<close> throws:
  no new overlay is created.
\<close>

lemma addTextInput_open_throws:
  assumes "textInput s = Some ov" and "ov_focused ov"
  shows "addTextInput r x y s = Throws NotFoundError (state_of (commitText r s))"
    and "textInput (state_of (addTextInput r x y s)) = None"
proof -
  have "\<exists>s1. commitText r s = Throws NotFoundError s1"
    using assms commitText_blank_focused [of s ov r] commitText_filled_focused [of s ov r]
    by (cases "ov_value ov = []") auto
  then obtain s1 where c: "commitText r s = Throws NotFoundError s1" ..
  then have t: "textInput s1 = None"
    using commitText_state [of r s] assms(1) by (auto split: if_splits)
  show "addTextInput r x y s = Throws NotFoundError (state_of (commitText r s))"
    using assms(1) by (simp add: addTextInput_def c)
  show "textInput (state_of (addTextInput r x y s)) = None"
    using assms(1) by (simp add: addTextInput_def c t)
qed

lemma parseInt_px_truncates:
  "parseInt_px (99 / 2) = 49" "parseInt_px (- 1 / 2) = 0" "parseInt_px 50 = 50"
  by (simp_all add: parseInt_px_def floor_eq_iff ceiling_eq_iff)

lemma commitText_isDrawing: "isDrawing (state_of (commitText r s)) = isDrawing s"
  by (simp add: commitText_state painted_frame split: option.splits)

lemma commitText_textInput: "textInput (state_of (commitText r s)) = None"
  by (simp add: commitText_state split: option.splits)

lemma commitText_no_text:
  "no_text s \<Longrightarrow> history (state_of (commitText r s)) = history s"
  by (auto simp: commitText_state no_text_def split: option.splits)

lemma commitText_redo:
  assumes "textInput s = Some ov" and "ov_value ov \<noteq> []"
  shows "redoHistory (state_of (commitText r s)) = []"
  using assms by (simp add: commitText_state painted_frame)

lemma addTextInput_frame:
  "isDrawing (state_of (addTextInput r x y s)) = isDrawing s"
  "no_text s \<Longrightarrow> history (state_of (addTextInput r x y s)) = history s"
  "no_text s \<Longrightarrow> no_text (state_of (addTextInput r x y s))"
proof -
  obtain s1 where o: "commitText r s = Returns s1 \<or> (\<exists>e. commitText r s = Throws e s1)"
    by (cases "commitText r s") auto
  then have s1: "s1 = state_of (commitText r s)" by auto
  have f: "isDrawing s1 = isDrawing s" "textInput s1 = None"
    by (simp_all add: s1 commitText_isDrawing commitText_textInput)
  show "isDrawing (state_of (addTextInput r x y s)) = isDrawing s"
    using o f by (auto simp: addTextInput_def)
  assume nt: "no_text s"
  then have h: "history s1 = history s" by (simp add: s1 commitText_no_text)
  show "history (state_of (addTextInput r x y s)) = history s"
    using o h by (auto simp: addTextInput_def)
  show "no_text (state_of (addTextInput r x y s))"
    using o f nt by (auto simp: addTextInput_def no_text_def)
qed

lemma startDrawing_isDrawing: "isDrawing (startDrawing r p s)"
  by (simp add: startDrawing_def addTextInput_frame moveTo_def beginPath_def Let_def)

lemma startDrawing_no_text:
  assumes "no_text s"
  shows "history (startDrawing r p s) = history s \<and> no_text (startDrawing r p s)"
proof -
  have nt: "no_text (s\<lparr>isDrawing := True\<rparr>)" using assms by (simp add: no_text_def)
  show ?thesis
    using addTextInput_frame(2,3) [OF nt] assms
    by (simp add: startDrawing_def Let_def moveTo_def beginPath_def no_text_def)
qed

lemma stopDrawing_commit:
  "isDrawing s \<Longrightarrow>
   history (stopDrawing s) = history s @ [toDataURL s]
   \<and> redoHistory (stopDrawing s) = []
   \<and> textInput (stopDrawing s) = textInput s"
  by (simp add: stopDrawing_def saveState_def toDataURL_def)

lemma gesture_no_text:
  assumes "no_text s"
  shows "length (history (gesture r p ps s)) = Suc (length (history s))"
    and "redoHistory (gesture r p ps s) = []"
    and "no_text (gesture r p ps s)"
proof -
  let ?a = "startDrawing r p s"
  let ?b = "fold (draw r) ps ?a"
  from assms have a: "history ?a = history s" "no_text ?a"
    using startDrawing_no_text by blast+
  have b: "history ?b = history s" "isDrawing ?b" "textInput ?b = textInput ?a"
    using fold_draw_frame [of r ps ?a] a by (simp_all add: startDrawing_isDrawing)
  from b(2) have c: "history (stopDrawing ?b) = history ?b @ [toDataURL ?b]"
     "redoHistory (stopDrawing ?b) = []" "textInput (stopDrawing ?b) = textInput ?b"
    using stopDrawing_commit by blast+
  show "length (history (gesture r p ps s)) = Suc (length (history s))"
    by (simp add: gesture_def c b)
  show "redoHistory (gesture r p ps s) = []"
    by (simp add: gesture_def c)
  show "no_text (gesture r p ps s)"
    using a(2) by (simp add: gesture_def c b no_text_def)
qed

lemma strokes_count:
  "no_text s \<Longrightarrow>
   length (history (fold (stroke_with r) gs s)) = length (history s) + length gs
   \<and> (gs \<noteq> [] \<longrightarrow> redoHistory (fold (stroke_with r) gs s) = [])
   \<and> no_text (fold (stroke_with r) gs s)"
proof (induction gs arbitrary: s)
  case Nil
  then show ?case by simp
next
  case (Cons g gs)
  obtain tool p ps where g: "g = (tool, p, ps)" by (cases g) auto
  have nt: "no_text (selectTool tool s)"
    using Cons.prems by (simp add: no_text_def selectTool_def)
  have h: "history (selectTool tool s) = history s" by (simp add: selectTool_def)
  let ?s = "stroke_with r g s"
  have 1: "no_text ?s" "length (history ?s) = Suc (length (history s))" "redoHistory ?s = []"
    using gesture_no_text [OF nt, of r p ps] by (simp_all add: stroke_with_def g h)
  from Cons.IH [OF 1(1)] show ?case using 1 by (cases gs) auto
qed

subsection \<open>Loading in request order\<close>

lemma fold_onload:
  "loading s = ps @ [img] \<Longrightarrow> length xs = Suc (length ps) \<Longrightarrow>
   fold (\<lambda>_. onload 0) xs s = drawImage img (clearRect (s\<lparr>loading := []\<rparr>))"
proof (induction ps arbitrary: s xs)
  case Nil
  then obtain x where "xs = [x]" by (cases xs) auto
  with Nil show ?case by (simp add: onload_def)
next
  case (Cons p ps)
  then obtain x xs' where xs: "xs = x # xs'" "length xs' = Suc (length ps)"
    by (cases xs) auto
  let ?s = "onload 0 s"
  have l: "loading ?s = ps @ [img]"
    using Cons.prems(1) by (simp add: onload_def drawImage_def clearRect_def split: prod.splits)
  have c: "clearRect (?s\<lparr>loading := []\<rparr>) = clearRect (s\<lparr>loading := []\<rparr>)"
    using Cons.prems(1) by (simp add: onload_def drawImage_def clearRect_def split: prod.splits)
  show ?case using Cons.IH [OF l xs(2)] by (simp add: xs c)
qed

lemma drawImage_frame:
  "redoHistory (drawImage img s) = redoHistory s"
  "history (drawImage img s) = history s"
  "loading (drawImage img s) = loading s"
  "canvas_width (drawImage img s) = canvas_width s"
  "canvas_height (drawImage img s) = canvas_height s"
  by (simp_all add: drawImage_def split: prod.splits)

lemma settle_last:
  "loading s = ps @ [img] \<Longrightarrow> settle s = drawImage img (clearRect (s\<lparr>loading := []\<rparr>))"
  unfolding settle_def by (rule fold_onload) simp_all

text \<open>
  When the images do finish loading in the order of the requests, undo followed by redo
  brings the bitmap back, whether the image of the undo loads only after the redo or
  already before it.
\<close>

lemma undo_redo_in_order:
  assumes "history s \<noteq> []"
  shows "pixels (settle (redo (undo s))) = pixels s
         \<and> pixels (settle (redo (settle (undo s)))) = pixels s"
proof -
  let ?u = "undo s"
  have u: "redoHistory ?u = redoHistory s @ [toDataURL s]"
      "loading ?u = loading s @ [last (history s)]"
      "canvas_width ?u = canvas_width s" "canvas_height ?u = canvas_height s"
    using assms by (simp_all add: undo_def redrawFromData_def)
  let ?r = "redo ?u"
  have r: "loading ?r = (loading s @ [last (history s)]) @ [toDataURL s]"
      "canvas_width ?r = canvas_width s" "canvas_height ?r = canvas_height s"
    using u by (simp_all add: redo_def redrawFromData_def)
  have late: "pixels (settle ?r) = pixels s"
    by (simp add: settle_last [OF r(1)] drawImage_def clearRect_def toDataURL_def r)
  let ?v = "settle ?u"
  have v: "redoHistory ?v = redoHistory s @ [toDataURL s]" "loading ?v = []"
      "canvas_width ?v = canvas_width s" "canvas_height ?v = canvas_height s"
    using u by (simp_all add: settle_last [OF u(2)] drawImage_frame clearRect_def)
  let ?w = "redo ?v"
  have w: "loading ?w = [] @ [toDataURL s]"
      "canvas_width ?w = canvas_width s" "canvas_height ?w = canvas_height s"
    using v by (simp_all add: redo_def redrawFromData_def)
  have early: "pixels (settle ?w) = pixels s"
    by (simp add: settle_last [OF w(1)] drawImage_def clearRect_def toDataURL_def w)
  show ?thesis using late early by simp
qed

subsection \<open>Commits\<close>

lemma redo_empty: "redoHistory s = [] \<Longrightarrow> redo s = s"
  by (simp add: redo_def)

text \<open>
  A commit stores the bitmap as it is after the mutation, so the snapshot that the next
  undo pops and restores is the bitmap already shown.
\<close>

lemma undo_after_commit_keeps_canvas:
  "loading s = [] \<Longrightarrow> pixels (onload 0 (undo (saveState s))) = pixels s"
  by (simp add: undo_def saveState_def redrawFromData_def onload_def drawImage_def
        clearRect_def toDataURL_def)

section \<open>The claims\<close>

text \<open>
  C1. For every sequence of N completed strokes committed from the initial state, with
  no undo or redo in between, the history has exactly N entries and the redo history is
  empty. Each stroke is a click on a tool button followed by a completed pointer
  gesture; the statement holds whichever tool ids are clicked.
\<close>

theorem C1_history_counts_strokes:
  "length (history (fold (stroke_with r) gs (constructor w h))) = length gs
   \<and> redoHistory (fold (stroke_with r) gs (constructor w h)) = []"
proof -
  have nt: "no_text (constructor w h)" by (simp add: no_text_def constructor_def)
  have e: "history (constructor w h) = []" "redoHistory (constructor w h) = []"
    by (simp_all add: constructor_def)
  show ?thesis using strokes_count [OF nt, of r gs] e by (cases gs) auto
qed

text \<open>
  C2, run on the code. In the state \<open>s_mid\<close> (two strokes, a click on undo, its image
  loaded) the history is not empty and the canvas shows both strokes. A click on undo
  and then immediately one on redo leave two images loading: the snapshot popped by
  undo (the first stroke alone), then the snapshot popped by redo (both strokes). When
  the second finishes loading before the first, the callback of the first runs last,
  and the canvas ends with the first stroke alone: not the bitmap it had immediately
  before the undo.
\<close>

theorem C2_reversed_loads_break_round_trip:
  "history s_mid \<noteq> []
   \<and> pixels s_mid =
       [StrokeOp ''#000000'' 2 [[(10, 10), (50, 50)]],
        StrokeOp ''#000000'' 2 [[(100, 100), (140, 100)]]]
   \<and> loading (redo (undo s_mid)) =
       [(300, 200, [StrokeOp ''#000000'' 2 [[(10, 10), (50, 50)]]]),
        (300, 200, [StrokeOp ''#000000'' 2 [[(10, 10), (50, 50)]],
                    StrokeOp ''#000000'' 2 [[(100, 100), (140, 100)]]])]
   \<and> pixels (onload 0 (onload 1 (redo (undo s_mid)))) =
       [StrokeOp ''#000000'' 2 [[(10, 10), (50, 50)]]]
   \<and> pixels (onload 0 (onload 1 (redo (undo s_mid)))) \<noteq> pixels s_mid"
  by (simp add: example_defs canvas_defs history_defs input_defs Let_def)

text \<open>
  C3. In every state, each committed mutation leaves the redo history empty, and a redo
  right after it changes nothing: the end of a stroke in progress (\<open>stopDrawing\<close>, and
  so every completed gesture), the commit of an overlay with content (whether
  \<^verbatim>\<open>commitText\<close> returns or throws, and so on loss of focus and on the Enter key), and
  a confirmed clear.
\<close>

theorem C3_mutation_clears_redo:
  "(isDrawing s \<longrightarrow>
      redoHistory (stopDrawing s) = [] \<and> redo (stopDrawing s) = stopDrawing s)
   \<and> redoHistory (gesture r p ps s) = [] \<and> redo (gesture r p ps s) = gesture r p ps s
   \<and> ((\<exists>ov. textInput s = Some ov \<and> ov_value ov \<noteq> []) \<longrightarrow>
      redoHistory (state_of (commitText r s)) = []
      \<and> redo (state_of (commitText r s)) = state_of (commitText r s)
      \<and> redoHistory (on_blur r s) = [] \<and> redo (on_blur r s) = on_blur r s
      \<and> redoHistory (on_keydown r ''Enter'' s) = []
      \<and> redo (on_keydown r ''Enter'' s) = on_keydown r ''Enter'' s)
   \<and> redoHistory (clearCanvas True s) = []
   \<and> redo (clearCanvas True s) = clearCanvas True s"
proof -
  have a: "isDrawing s \<longrightarrow> redoHistory (stopDrawing s) = []"
    using stopDrawing_commit [of s] by simp
  have "isDrawing (fold (draw r) ps (startDrawing r p s))"
    using fold_draw_frame [of r ps "startDrawing r p s"]
    by (simp add: startDrawing_isDrawing)
  then have b: "redoHistory (gesture r p ps s) = []"
    using stopDrawing_commit by (simp add: gesture_def)
  have c: "redoHistory (state_of (commitText r s)) = []
           \<and> redoHistory (on_blur r s) = [] \<and> redoHistory (on_keydown r ''Enter'' s) = []"
    if "textInput s = Some ov" and "ov_value ov \<noteq> []" for ov
  proof -
    have "textInput (blurred s) = Some (ov\<lparr>ov_focused := False\<rparr>)"
      using that(1) by (simp add: blurred_def)
    then have "redoHistory (state_of (commitText r (blurred s))) = []"
      using commitText_redo [of "blurred s" "ov\<lparr>ov_focused := False\<rparr>" r] that(2) by simp
    then show ?thesis
      using commitText_redo [OF that] by (simp add: on_blur_def on_keydown_def)
  qed
  have d: "redoHistory (clearCanvas True s) = []"
    by (simp add: clearCanvas_def saveState_def)
  show ?thesis using a b c d by (auto simp: redo_empty)
qed

theorem C3_mutation_clears_redo_witness:
  "redoHistory s_text \<noteq> []
   \<and> isDrawing s_text \<and> redoHistory (stopDrawing s_text) = []
   \<and> redo (stopDrawing s_text) = stopDrawing s_text
   \<and> (\<exists>ov. textInput s_text = Some ov \<and> ov_value ov \<noteq> [])
   \<and> redoHistory (state_of (commitText r0 s_text)) = []
   \<and> redo (state_of (commitText r0 s_text)) = state_of (commitText r0 s_text)
   \<and> redo (on_blur r0 s_text) = on_blur r0 s_text
   \<and> redo (on_keydown r0 ''Enter'' s_text) = on_keydown r0 ''Enter'' s_text"
proof -
  have t: "textInput s_text =
     Some \<lparr>ov_left = 50, ov_top = 60, ov_color = ''#ff0000'',
           ov_font = Font 10 ''Arial'', ov_value = ''Hi'', ov_focused = True\<rparr>"
    by (simp add: example_defs canvas_defs history_defs input_defs Let_def)
  have e: "\<exists>ov. textInput s_text = Some ov \<and> ov_value ov \<noteq> []"
    by (simp add: t)
  have f: "redoHistory s_text \<noteq> [] \<and> isDrawing s_text"
    by (simp add: example_defs canvas_defs history_defs input_defs Let_def)
  show ?thesis
    using C3_mutation_clears_redo [of s_text r0 "(0, 0)" "[]"] e f by simp
qed

text \<open>
  C4, run on the code. From a new whiteboard, one pencil stroke of width 2 in black
  leaves a history of length 1. After a click on undo and the loading of its image the
  redo history has length 1, but the canvas still shows the stroke: it is not blank,
  since the snapshot popped and restored is the one taken after the stroke. After a
  click on redo and the loading of its image the canvas shows the stroke, the history
  has length 1 and the redo history length 0.
\<close>

theorem C4_first_undo_keeps_stroke:
  "length (history s_one) = 1
   \<and> pixels s_one = [StrokeOp ''#000000'' 2 [[(10, 10), (50, 50)]]]
   \<and> pixels (onload 0 (undo s_one)) = pixels s_one
   \<and> pixels (onload 0 (undo s_one)) \<noteq> []
   \<and> length (redoHistory (onload 0 (undo s_one))) = 1
   \<and> pixels (onload 0 (redo (onload 0 (undo s_one)))) = pixels s_one
   \<and> length (history (onload 0 (redo (onload 0 (undo s_one))))) = 1
   \<and> length (redoHistory (onload 0 (redo (onload 0 (undo s_one))))) = 0"
  by (simp add: example_defs canvas_defs history_defs input_defs Let_def)

text \<open>
  C5. In every state with an empty history, undo leaves the whole state (canvas, history
  and redo history included) as it is; in every state with an empty redo history, redo
  does.
\<close>

theorem C5_undo_redo_on_empty:
  "(history s = [] \<longrightarrow> undo s = s) \<and> (redoHistory s = [] \<longrightarrow> redo s = s)"
  by (simp add: undo_def redo_def)

theorem C5_undo_redo_on_empty_witness:
  "history (constructor 300 200) = [] \<and> undo (constructor 300 200) = constructor 300 200
   \<and> redoHistory s_one = [] \<and> redo s_one = s_one"
  using C5_undo_redo_on_empty [of "constructor 300 200"] C5_undo_redo_on_empty [of s_one]
  by (simp add: example_defs canvas_defs history_defs input_defs Let_def)

text \<open>
  C6, run on the code. On a new whiteboard with the text tool chosen, a pointer-down at
  canvas coordinates \<open>(50, 60)\<close> opens an overlay at \<open>(50, 60)\<close> and begins no path, but
  it does mark drawing-in-progress (\<open>isDrawing\<close> is set before the tool is looked at),
  and the pointer-up that follows commits a snapshot of the untouched canvas.
\<close>

theorem C6_text_pointer_down_marks_drawing:
  "currentTool (selectTool ''text'' (constructor 300 200)) = ''text''
   \<and> textInput s_blank =
       Some \<lparr>ov_left = 50, ov_top = 60, ov_color = ''#000000'',
             ov_font = Font 5 ''Arial'', ov_value = [], ov_focused = True\<rparr>
   \<and> path s_blank = []
   \<and> isDrawing s_blank
   \<and> pixels (stopDrawing s_blank) = []
   \<and> history (stopDrawing s_blank) = [(300, 200, [])]"
  by (simp add: example_defs canvas_defs history_defs input_defs Let_def)

text \<open>
  C7, run on the code. With red chosen in the colour picker, an eraser stroke leaves the
  stroke colour of the context at the background colour \<^verbatim>\<open>#f0f0f0\<close>, and a pencil
  stroke drawn afterwards is painted with \<^verbatim>\<open>#f0f0f0\<close>, not with red.
\<close>

theorem C7_eraser_colour_persists:
  "strokeStyle (colorChange ''#ff0000'' (constructor 300 200)) = ''#ff0000''
   \<and> strokeStyle s_erased = ''#f0f0f0''
   \<and> pixels (stroke_with r0 (''pencil'', (108, 140), [(148, 140)]) s_erased) =
       pixels s_erased @ [StrokeOp ''#f0f0f0'' 1 [[(100, 100), (140, 100)]]]"
  by (simp add: example_defs canvas_defs history_defs input_defs Let_def)

text \<open>
  C8, run on the code. In the state \<open>s_text\<close> the overlay has the focus, records the
  position \<open>(50, 60)\<close> and holds \<^verbatim>\<open>Hi\<close>; the canvas lies at \<open>(8, 40)\<close>. On the Enter
  key \<^verbatim>\<open>commitText\<close> paints the text and saves, and its \<^verbatim>\<open>remove()\<close> of the focused
  overlay runs \<^verbatim>\<open>commitText\<close> a second time through the \<^verbatim>\<open>blur\<close> listener: the text is
  painted twice, the history grows by two, and the method ends by throwing
  \<^verbatim>\<open>NotFoundError\<close>; the overlay is gone. On a loss of focus the text is painted once
  and the history grows by one. Either way the text is painted at \<open>(42, 20)\<close>, the
  recorded position less the origin of the canvas, not at \<open>(50, 60)\<close>.
\<close>

theorem C8_enter_commits_twice:
  "textInput s_text =
     Some \<lparr>ov_left = 50, ov_top = 60, ov_color = ''#ff0000'',
           ov_font = Font 10 ''Arial'', ov_value = ''Hi'', ov_focused = True\<rparr>
   \<and> commitText r0 s_text = Throws NotFoundError (on_keydown r0 ''Enter'' s_text)
   \<and> pixels (on_keydown r0 ''Enter'' s_text) =
       pixels s_text @ [TextOp ''Hi'' 42 20 (Font 10 ''Arial'') ''#ff0000'',
                        TextOp ''Hi'' 42 20 (Font 10 ''Arial'') ''#ff0000'']
   \<and> length (history (on_keydown r0 ''Enter'' s_text)) = length (history s_text) + 2
   \<and> textInput (on_keydown r0 ''Enter'' s_text) = None
   \<and> pixels (on_blur r0 s_text) =
       pixels s_text @ [TextOp ''Hi'' 42 20 (Font 10 ''Arial'') ''#ff0000'']
   \<and> length (history (on_blur r0 s_text)) = length (history s_text) + 1
   \<and> textInput (on_blur r0 s_text) = None"
proof -
  let ?ov = "\<lparr>ov_left = 50, ov_top = 60, ov_color = ''#ff0000'',
              ov_font = Font 10 ''Arial'', ov_value = ''Hi'', ov_focused = True\<rparr>"
  have t: "textInput s_text = Some ?ov"
    by (simp add: example_defs canvas_defs history_defs input_defs Let_def)
  have enter: "commitText r0 s_text =
      Throws NotFoundError ((painted r0 ?ov (painted r0 ?ov s_text))\<lparr>textInput := None\<rparr>)"
    using commitText_filled_focused [OF t, of r0] by simp
  have b: "textInput (blurred s_text) = Some (?ov\<lparr>ov_focused := False\<rparr>)"
    using t by (simp add: blurred_def)
  have blur: "commitText r0 (blurred s_text) =
      Returns ((painted r0 ?ov (blurred s_text))\<lparr>textInput := None\<rparr>)"
    using commitText_filled_unfocused [OF b, of r0] by (simp add: painted_def)
  have p: "pixels (blurred s_text) = pixels s_text" "history (blurred s_text) = history s_text"
    using t by (simp_all add: blurred_def)
  have k: "on_keydown r0 ''Enter'' s_text =
      (painted r0 ?ov (painted r0 ?ov s_text))\<lparr>textInput := None\<rparr>"
    by (simp add: on_keydown_def enter)
  have l: "on_blur r0 s_text = (painted r0 ?ov (blurred s_text))\<lparr>textInput := None\<rparr>"
    by (simp add: on_blur_def blur)
  show ?thesis
    unfolding k l enter
    by (simp add: t p painted_frame parseInt_px_def r0_def)
qed

text \<open>
  C9. In every state, a clear whose confirmation is declined leaves the whole state
  (bitmap, history and redo history included) as it is; a clear whose confirmation is
  accepted blanks the bitmap and appends the blank bitmap to the history, which grows
  by one.
\<close>

theorem C9_clear_needs_confirmation:
  "clearCanvas False s = s
   \<and> pixels (clearCanvas True s) = []
   \<and> history (clearCanvas True s) = history s @ [(canvas_width s, canvas_height s, [])]
   \<and> length (history (clearCanvas True s)) = Suc (length (history s))"
  by (simp add: clearCanvas_def saveState_def clearRect_def toDataURL_def)

text \<open>
  C10. In every state, an undo with a history that is not empty pops the history and
  pushes the current bitmap onto the redo history, and a redo with a redo history that
  is not empty does the converse; either way the two lengths add up to what they added
  up to before.
\<close>

theorem C10_undo_redo_keep_total:
  "(history s \<noteq> [] \<longrightarrow>
      history (undo s) = butlast (history s)
      \<and> redoHistory (undo s) = redoHistory s @ [toDataURL s]
      \<and> length (history (undo s)) + length (redoHistory (undo s))
          = length (history s) + length (redoHistory s))
   \<and> (redoHistory s \<noteq> [] \<longrightarrow>
      history (redo s) = history s @ [toDataURL s]
      \<and> redoHistory (redo s) = butlast (redoHistory s)
      \<and> length (history (redo s)) + length (redoHistory (redo s))
          = length (history s) + length (redoHistory s))"
  by (cases "history s"; cases "redoHistory s")
     (simp_all add: undo_def redo_def redrawFromData_def)

theorem C10_undo_redo_keep_total_witness:
  "history s_mid \<noteq> [] \<and> redoHistory s_mid \<noteq> []
   \<and> length (history (undo s_mid)) + length (redoHistory (undo s_mid)) = 2
   \<and> length (history (redo s_mid)) + length (redoHistory (redo s_mid)) = 2
   \<and> length (history s_mid) + length (redoHistory s_mid) = 2"
  using C10_undo_redo_keep_total [of s_mid]
  by (simp add: example_defs canvas_defs history_defs input_defs Let_def)

end
